theory Spec2Isabelle
  imports Complex_Main "HOL-Library.Char_ord" "HOL-Library.List_Lexorder" "HOL-Library.Option_ord"
begin

section \<open>Text cells and the Text Normalizer (transform.py, \<open>_clean_text\<close>)\<close>

text \<open>
  The pipeline reads every CSV with \<^verbatim>\<open>dtype=str, keep_default_na=False\<close> and
  concatenates the files, so a cell of the combined table is a Python \<^verbatim>\<open>str\<close> or,
  where a file lacks the column, NaN. A cell is a \<open>string option\<close>, \<open>None\<close> being NaN.

  Text is modelled with the code points below 256, one \<open>char\<close> each. Python's
  \<^verbatim>\<open>\s\<close> (in a \<^verbatim>\<open>str\<close> pattern) and \<^verbatim>\<open>str.strip()\<close> use the same whitespace
  test; below 256 it holds of the code points 9 to 13, 28 to 32, 133 and 160.
  A leading underscore is not an Isabelle name, so \<^verbatim>\<open>_clean_text\<close> is \<open>clean_text\<close>,
  and likewise for the other helpers.
\<close>

type_synonym cell = "string option"

definition is_space :: "char \<Rightarrow> bool" where
  "is_space c =
     (c \<in> set [CHR 0x09, CHR 0x0A, CHR 0x0B, CHR 0x0C, CHR 0x0D, CHR 0x1C, CHR 0x1D,
               CHR 0x1E, CHR 0x1F, CHR 0x20, CHR 0x85, CHR 0xA0])"

text \<open>\<^verbatim>\<open>series.fillna(d)\<close> on one cell.\<close>

definition fillna :: "string \<Rightarrow> cell \<Rightarrow> string" where
  "fillna d c = (case c of None \<Rightarrow> d | Some s \<Rightarrow> s)"

text \<open>
  \<^verbatim>\<open>re.sub(r"\s+", " ", s)\<close>: every maximal run of whitespace becomes one space.
  The flag says that the previous character belonged to a run already replaced.
\<close>

fun collapse_ws :: "bool \<Rightarrow> string \<Rightarrow> string" where
  "collapse_ws in_run [] = []"
| "collapse_ws in_run (c # cs) =
     (if is_space c
      then (if in_run then collapse_ws True cs else CHR '' '' # collapse_ws True cs)
      else c # collapse_ws False cs)"

text \<open>\<^verbatim>\<open>str.strip()\<close>: whitespace removed at both ends.\<close>

definition strip :: "string \<Rightarrow> string" where
  "strip s = rev (dropWhile is_space (rev (dropWhile is_space s)))"

text \<open>
  \<^verbatim>\<open>s = series.fillna("").astype(str); s.str.replace(r"\s+", " ", regex=True).str.strip()\<close>,
  first on one cell, then on the column.
\<close>

definition clean_cell :: "cell \<Rightarrow> string" where
  "clean_cell c = strip (collapse_ws False (fillna [] c))"

definition clean_text :: "cell list \<Rightarrow> string list" where
  "clean_text series = map clean_cell series"

text \<open>
  \<^verbatim>\<open>str.lower()\<close> on the code points below 256: the ASCII capitals and the Latin-1
  capitals 192 to 222 (215, the multiplication sign, apart) move up by 32.
\<close>

definition lower_char :: "char \<Rightarrow> char" where
  "lower_char c =
     (let n = (of_char c :: nat)
      in if (65 \<le> n \<and> n \<le> 90) \<or> (192 \<le> n \<and> n \<le> 222 \<and> n \<noteq> 215)
         then char_of (n + 32) else c)"

definition lower :: "string \<Rightarrow> string" where
  "lower s = map lower_char s"

text \<open>An input cell is blank when it is NaN, empty or whitespace only.\<close>

definition is_blank :: "cell \<Rightarrow> bool" where
  "is_blank c = (case c of None \<Rightarrow> True | Some s \<Rightarrow> list_all is_space s)"

section \<open>The Date Canonicalizer (transform.py, \<open>_parse_date\<close>)\<close>

text \<open>
  \<^verbatim>\<open>pd.to_datetime(raw, errors="coerce", infer_datetime_format=True)\<close> is pandas, not
  this repository: the parser is a parameter. It is given the whole column and a
  position, since pandas may infer one format for the column; what pandas fixes is
  that the result has one entry per input and that the empty string is NaT.
  \<open>None\<close> is NaT.
\<close>

definition pd_to_datetime :: "(string list \<Rightarrow> nat \<Rightarrow> 'd option) \<Rightarrow> string list \<Rightarrow> 'd option list" where
  "pd_to_datetime parser raw =
     map (\<lambda>i. if raw ! i = [] then None else parser raw i) [0..<length raw]"

text \<open>
  \<^verbatim>\<open>parsed.dt.strftime("%Y-%m-%d")\<close> gives NaN at NaT; \<open>strftime\<close> formats a parsed date.
\<close>

definition parse_date ::
  "(string list \<Rightarrow> nat \<Rightarrow> 'd option) \<Rightarrow> ('d \<Rightarrow> string) \<Rightarrow> cell list \<Rightarrow> string list \<times> bool list" where
  "parse_date parser strftime series =
     (let raw = clean_text series;
          raw_is_blank = map (\<lambda>s. s = []) raw;
          parsed = pd_to_datetime parser raw;
          invalid = map2 (\<lambda>p b. p = None \<and> \<not> b) parsed raw_is_blank;
          iso = map (map_option strftime) parsed
      in (map (fillna []) iso, invalid))"

section \<open>The Amount Canonicalizer (transform.py, \<open>_parse_amount\<close>)\<close>

text \<open>
  \<^verbatim>\<open>raw.str.replace(r"^\((.*)\)$", r"-\1", regex=True)\<close> on one string. The argument
  is cleaned text, which holds no line feed, so \<^verbatim>\<open>.\<close> matches every character and
  \<^verbatim>\<open>$\<close> only the end: the pattern matches when the first character is an opening
  and the last a closing parenthesis (two characters at least).
\<close>

definition paren_to_minus :: "string \<Rightarrow> string" where
  "paren_to_minus s =
     (if 2 \<le> length s \<and> hd s = CHR ''('' \<and> last s = CHR '')''
      then CHR ''-'' # butlast (tl s) else s)"

text \<open>\<^verbatim>\<open>raw.str.replace(re.compile(r"[,\$]"), "", regex=True)\<close> on one string.\<close>

definition strip_currency :: "string \<Rightarrow> string" where
  "strip_currency s = filter (\<lambda>c. c \<noteq> CHR '','' \<and> c \<noteq> CHR ''$'') s"

text \<open>
  \<^verbatim>\<open>pd.to_numeric(raw, errors="coerce")\<close>: the numeric parser is pandas' and a
  parameter, given the column and a position (the column decides the result's dtype);
  the empty string is NaN. \<open>None\<close> is NaN; the type \<open>'a\<close> stands for the float values.
\<close>

definition pd_to_numeric :: "(string list \<Rightarrow> nat \<Rightarrow> 'a option) \<Rightarrow> string list \<Rightarrow> 'a option list" where
  "pd_to_numeric parser raw =
     map (\<lambda>i. if raw ! i = [] then None else parser raw i) [0..<length raw]"

definition parse_amount ::
  "(string list \<Rightarrow> nat \<Rightarrow> 'a option) \<Rightarrow> cell list \<Rightarrow> 'a option list \<times> bool list" where
  "parse_amount parser series =
     (let raw = clean_text series;
          raw = map paren_to_minus raw;
          raw = map strip_currency raw;
          raw_is_blank = map (\<lambda>s. s = []) raw;
          amt = pd_to_numeric parser raw;
          invalid = map2 (\<lambda>a b. a = None \<and> \<not> b) amt raw_is_blank
      in (amt, invalid))"

section \<open>The Identity Key Builder (transform.py, \<open>_make_txn_key\<close>)\<close>

text \<open>
  \<^verbatim>\<open>amt.round(2).astype("Float64").astype(str).fillna("")\<close>, step by step, for the
  pandas versions that accept every call of transform.py (1.3 up to, not including, 3):
  \<^item> \<^verbatim>\<open>round(2)\<close> rounds each float (\<open>round2\<close>, a parameter) and leaves NaN;
  \<^item> \<^verbatim>\<open>astype("Float64")\<close> turns NaN into the missing value \<^verbatim>\<open>pd.NA\<close> of the nullable
    dtype (still \<open>None\<close> here);
  \<^item> \<^verbatim>\<open>astype(str)\<close> on a nullable array writes every entry as text, the missing one as
    \<^verbatim>\<open>str(pd.NA)\<close>, that is \<^verbatim>\<open><NA>\<close>; \<open>fmt\<close> (a parameter) writes a float;
  \<^item> \<^verbatim>\<open>fillna("")\<close> then finds a column of strings.
\<close>

definition astype_str :: "('a \<Rightarrow> string) \<Rightarrow> 'a option \<Rightarrow> cell" where
  "astype_str fmt v = Some (case v of None \<Rightarrow> ''<NA>'' | Some x \<Rightarrow> fmt x)"

definition make_txn_key ::
  "('a \<Rightarrow> 'a) \<Rightarrow> ('a \<Rightarrow> string) \<Rightarrow> string list \<Rightarrow> cell list \<Rightarrow> 'a option list \<Rightarrow> string list" where
  "make_txn_key round2 fmt date_iso desc amt =
     (let desc_norm = map lower (clean_text desc);
          amt_norm = map (fillna []) (map (astype_str fmt) (map (map_option round2) amt))
      in map2 (\<lambda>(d, s) a. d @ ''|'' @ s @ ''|'' @ a) (zip date_iso desc_norm) amt_norm)"

section \<open>The Row Classifier and Deduplicator (transform.py, \<open>transform_transactions\<close>)\<close>

text \<open>
  A DataFrame is its column names and its rows; a row gives a cell for each column name
  (what it gives for a name that is not a column is never read). \<open>col df c\<close> is
  \<^verbatim>\<open>df[c]\<close>, so all columns have the length of the table.
\<close>

record dataframe =
  columns :: "string list"
  rows :: "(string \<Rightarrow> cell) list"

definition col :: "dataframe \<Rightarrow> string \<Rightarrow> cell list" where
  "col df c = map (\<lambda>r. r c) (rows df)"

text \<open>The pandas functions the transform calls, as one parameter.\<close>

record ('d, 'a) pandas =
  lib_to_datetime :: "string list \<Rightarrow> nat \<Rightarrow> 'd option"
  lib_strftime :: "'d \<Rightarrow> string"
  lib_to_numeric :: "string list \<Rightarrow> nat \<Rightarrow> 'a option"
  lib_round :: "'a \<Rightarrow> 'a"
  lib_str :: "'a \<Rightarrow> string"

text \<open>
  A row of \<^verbatim>\<open>out\<close>: the raw \<^verbatim>\<open>date\<close> and \<^verbatim>\<open>amount\<close>, the columns the transform
  writes, and the input row (\<^verbatim>\<open>source_file\<close> and every extra column).
\<close>

record 'a txn =
  date :: cell
  amount :: cell
  date_iso :: string
  description :: string
  amount_num :: "'a option"
  category :: string
  source :: string
  txn_key :: string
  issue_date_invalid :: bool
  issue_amount_invalid :: bool
  has_issue :: bool
  input_row :: "string \<Rightarrow> cell"

record TransformMetadata =
  rows_in :: int
  rows_out_clean :: int
  rows_out_issues :: int
  duplicates_removed :: int

datatype error = ValueError string | RuntimeError string

text \<open>
  \<^verbatim>\<open>for col in ["date", "amount"]: if col not in out.columns: raise ValueError(...)\<close>
\<close>

fun check_required :: "string list \<Rightarrow> string list \<Rightarrow> error option" where
  "check_required cols [] = None"
| "check_required cols (c # cs) =
     (if c \<notin> set cols
      then Some (ValueError (''transform_transactions missing required column: '' @ c))
      else check_required cols cs)"

text \<open>
  The body of \<^verbatim>\<open>transform_transactions\<close> from the text columns to \<^verbatim>\<open>txn_key\<close>,
  column by column as the source computes it, then read row by row.
\<close>

definition normalized :: "('d, 'a) pandas \<Rightarrow> dataframe \<Rightarrow> 'a txn list" where
  "normalized lib df =
     (let n = length (rows df);
          description_col = clean_text (if ''description'' \<in> set (columns df)
                                        then col df ''description'' else replicate n (Some []));
          category_col = (if ''category'' \<in> set (columns df)
                          then clean_text (col df ''category'') else replicate n []);
          source_col = (if ''source'' \<in> set (columns df)
                        then clean_text (col df ''source'') else replicate n []);
          (date_iso_col, bad_date) =
             parse_date (lib_to_datetime lib) (lib_strftime lib) (col df ''date'');
          (amount_num_col, bad_amount) = parse_amount (lib_to_numeric lib) (col df ''amount'');
          has_issue_col = map2 (\<or>) bad_date bad_amount;
          txn_key_col = make_txn_key (lib_round lib) (lib_str lib)
                          date_iso_col (map Some description_col) amount_num_col
      in map (\<lambda>i. \<lparr>date = col df ''date'' ! i, amount = col df ''amount'' ! i,
                     date_iso = date_iso_col ! i, description = description_col ! i,
                     amount_num = amount_num_col ! i, category = category_col ! i,
                     source = source_col ! i, txn_key = txn_key_col ! i,
                     issue_date_invalid = bad_date ! i, issue_amount_invalid = bad_amount ! i,
                     has_issue = has_issue_col ! i, input_row = rows df ! i\<rparr>)
           [0..<n])"

text \<open>
  \<^verbatim>\<open>drop_duplicates(subset=["txn_key"], keep="first")\<close>: pandas scans the rows in order
  and keeps a row when its key has not been seen.
\<close>

fun drop_duplicates_from :: "('r \<Rightarrow> 'k) \<Rightarrow> 'k list \<Rightarrow> 'r list \<Rightarrow> 'r list" where
  "drop_duplicates_from key seen [] = []"
| "drop_duplicates_from key seen (r # rs) =
     (if key r \<in> set seen then drop_duplicates_from key seen rs
      else r # drop_duplicates_from key (key r # seen) rs)"

definition drop_duplicates :: "('r \<Rightarrow> 'k) \<Rightarrow> 'r list \<Rightarrow> 'r list" where
  "drop_duplicates key rs = drop_duplicates_from key [] rs"

text \<open>\<^verbatim>\<open>clean_df = out[~out["has_issue"]]\<close>, the clean rows before deduplication.\<close>

definition clean_before_dedup :: "('d, 'a) pandas \<Rightarrow> dataframe \<Rightarrow> 'a txn list" where
  "clean_before_dedup lib df = filter (\<lambda>r. \<not> has_issue r) (normalized lib df)"

text \<open>
  \<^verbatim>\<open>transform_transactions\<close>. The column selections at its end keep every row and
  only choose and order columns; a \<open>txn\<close> keeps all its fields. Python's \<^verbatim>\<open>int\<close> is
  \<open>int\<close>; \<open>before_dedup\<close> and \<open>after_dedup\<close> are the source's \<^verbatim>\<open>before\<close> and
  \<^verbatim>\<open>after\<close>.
\<close>

definition transform_transactions ::
  "('d, 'a) pandas \<Rightarrow> dataframe \<Rightarrow> error + ('a txn list \<times> 'a txn list \<times> TransformMetadata)" where
  "transform_transactions lib df =
     (let rows_in_n = int (length (rows df))
      in case check_required (columns df) [''date'', ''amount''] of
           Some e \<Rightarrow> Inl e
         | None \<Rightarrow>
             (let out = normalized lib df;
                  issues_df = filter has_issue out;
                  clean_df = clean_before_dedup lib df;
                  before_dedup = int (length clean_df);
                  clean_df = drop_duplicates txn_key clean_df;
                  after_dedup = int (length clean_df);
                  removed = before_dedup - after_dedup
              in Inr (clean_df, issues_df,
                      \<lparr>rows_in = rows_in_n, rows_out_clean = int (length clean_df),
                       rows_out_issues = int (length issues_df),
                       duplicates_removed = removed\<rparr>)))"

section \<open>The Aggregator (queries.py, \<open>get_query_results\<close>)\<close>

text \<open>
  A row of the SQLite table \<^verbatim>\<open>transactions\<close>, with the columns the two views read.
  \<open>None\<close> is NULL. SQLite stores a float as REAL; every REAL is a real number, and
  what floating-point addition and \<^verbatim>\<open>ROUND(x, 2)\<close> make of them is left to two
  parameters, \<open>fsum\<close> (\<^verbatim>\<open>SUM\<close> of a non-empty list, in row order) and \<open>round2\<close>.
\<close>

record stored_row =
  sql_date_iso :: "string option"
  sql_amount_num :: "real option"
  sql_category :: "string option"
  sql_run_id :: "string option"

text \<open>
  \<^verbatim>\<open>if run_id: where = "WHERE run_id = ?"\<close>: the filter is there for a non-empty
  \<^verbatim>\<open>run_id\<close> only.
\<close>

definition where_run :: "string option \<Rightarrow> stored_row list \<Rightarrow> stored_row list" where
  "where_run run_id table =
     (case run_id of
        None \<Rightarrow> table
      | Some r \<Rightarrow> if r = [] then table else filter (\<lambda>t. sql_run_id t = Some r) table)"

text \<open>\<^verbatim>\<open>GROUP BY e\<close>: one group for each value of \<open>e\<close>, holding the rows that have it.\<close>

definition group_by :: "('r \<Rightarrow> 'k) \<Rightarrow> 'r list \<Rightarrow> ('k \<times> 'r list) list" where
  "group_by e table = map (\<lambda>k. (k, filter (\<lambda>r. e r = k) table)) (remdups (map e table))"

text \<open>\<^verbatim>\<open>SUM(x)\<close> skips NULL and is NULL when nothing is left.\<close>

definition sql_sum :: "(real list \<Rightarrow> real) \<Rightarrow> real option list \<Rightarrow> real option" where
  "sql_sum fsum xs = (case List.map_filter id xs of [] \<Rightarrow> None | ys \<Rightarrow> Some (fsum ys))"

text \<open>
  \<^verbatim>\<open>CASE WHEN amount_num > 0 THEN amount_num ELSE 0 END\<close> and its mirror; a comparison
  with NULL is not true.
\<close>

definition positive_part :: "real option \<Rightarrow> real option" where
  "positive_part a = (case a of None \<Rightarrow> Some 0 | Some x \<Rightarrow> if x > 0 then Some x else Some 0)"

definition negative_part :: "real option \<Rightarrow> real option" where
  "negative_part a = (case a of None \<Rightarrow> Some 0 | Some x \<Rightarrow> if x < 0 then Some x else Some 0)"

record month_row =
  mt_year_month :: "string option"
  mt_net_total :: "real option"
  mt_income :: "real option"
  mt_expenses :: "real option"
  mt_row_count :: nat

text \<open>
  \<^verbatim>\<open>monthly_sql\<close>. \<^verbatim>\<open>SUBSTR(date_iso, 1, 7)\<close> is the first seven characters, NULL for
  NULL. \<^verbatim>\<open>ORDER BY year_month\<close> is ascending with NULL first; text compares by code
  point.
\<close>

definition month_key :: "stored_row \<Rightarrow> string option" where
  "month_key r = map_option (take 7) (sql_date_iso r)"

definition monthly_trends ::
  "(real list \<Rightarrow> real) \<Rightarrow> (real \<Rightarrow> real) \<Rightarrow> string option \<Rightarrow> stored_row list \<Rightarrow> month_row list" where
  "monthly_trends fsum round2 run_id table =
     sort_key mt_year_month
       (map (\<lambda>(k, g).
               \<lparr>mt_year_month = k,
                mt_net_total = map_option round2 (sql_sum fsum (map sql_amount_num g)),
                mt_income =
                  map_option round2 (sql_sum fsum (map (positive_part \<circ> sql_amount_num) g)),
                mt_expenses =
                  map_option round2
                    (map_option abs (sql_sum fsum (map (negative_part \<circ> sql_amount_num) g))),
                mt_row_count = length g\<rparr>)
          (group_by month_key (where_run run_id table)))"

record category_row =
  cs_category :: string
  cs_net_total :: "real option"
  cs_row_count :: nat

text \<open>
  \<^verbatim>\<open>category_sql\<close>. SQLite's \<^verbatim>\<open>TRIM(x)\<close> removes the space character (code 32) at
  both ends and no other. \<^verbatim>\<open>ORDER BY ABS(net_total) DESC\<close> reads the result column
  \<^verbatim>\<open>net_total\<close> (the table has no such column); descending puts NULL last. The order of
  rows with equal keys is not fixed by SQL; here it is the reverse of a stable sort.
\<close>

definition sql_trim :: "string \<Rightarrow> string" where
  "sql_trim s = rev (dropWhile (\<lambda>c. c = CHR '' '') (rev (dropWhile (\<lambda>c. c = CHR '' '') s)))"

definition category_key :: "stored_row \<Rightarrow> string" where
  "category_key r =
     (case sql_category r of
        None \<Rightarrow> ''Uncategorized''
      | Some c \<Rightarrow> if sql_trim c = [] then ''Uncategorized'' else c)"

definition category_summary ::
  "(real list \<Rightarrow> real) \<Rightarrow> (real \<Rightarrow> real) \<Rightarrow> string option \<Rightarrow> stored_row list \<Rightarrow> category_row list" where
  "category_summary fsum round2 run_id table =
     rev (sort_key (\<lambda>c. map_option abs (cs_net_total c))
       (map (\<lambda>(k, g).
               \<lparr>cs_category = k,
                cs_net_total = map_option round2 (sql_sum fsum (map sql_amount_num g)),
                cs_row_count = length g\<rparr>)
          (group_by category_key (where_run run_id table))))"

text \<open>
  \<^verbatim>\<open>get_query_results\<close>, for the two views above: a database without the table
  \<^verbatim>\<open>transactions\<close> (\<open>None\<close>) raises \<^verbatim>\<open>RuntimeError\<close>.
\<close>

definition get_query_results ::
  "(real list \<Rightarrow> real) \<Rightarrow> (real \<Rightarrow> real) \<Rightarrow> stored_row list option \<Rightarrow> string option
     \<Rightarrow> error + (month_row list \<times> category_row list)" where
  "get_query_results fsum round2 db run_id =
     (case db of
        None \<Rightarrow> Inl (RuntimeError
          ''SQLite table 'transactions' not found. Run the pipeline load step first.'')
      | Some table \<Rightarrow>
          Inr (monthly_trends fsum round2 run_id table,
               category_summary fsum round2 run_id table))"

section \<open>Example tables\<close>

text \<open>
  The end-to-end scenario of the specification (\<open>demo_df\<close>), a table with one
  blank date and no optional column, and a table without \<open>amount\<close>, with a
  table-driven stand-in for the pandas functions: the date parser reads three date
  strings and gives the ISO text, the numeric parser reads three amounts, rounding
  leaves them unchanged and \<open>lib_str\<close> writes them as Python writes these floats.
\<close>

definition demo_lib :: "(string, real) pandas" where
  "demo_lib =
     \<lparr>lib_to_datetime = (\<lambda>c i. map_of [(''01/02/2024'', ''2024-01-02''),
                                          (''2024-01-02'', ''2024-01-02''),
                                          (''2024-01-03'', ''2024-01-03'')] (c ! i)),
      lib_strftime = (\<lambda>d. d),
      lib_to_numeric = (\<lambda>c i. map_of [(''4.50'', 4.5), (''12.00'', 12),
                                         (''-1200.00'', - 1200)] (c ! i)),
      lib_round = (\<lambda>x. x),
      lib_str = (\<lambda>x. if x = 4.5 then ''4.5'' else if x = 12 then ''12.0''
                      else if x = - 1200 then ''-1200.0'' else ''?'')\<rparr>"

definition demo_df :: dataframe where
  "demo_df =
     \<lparr>columns = [''date'', ''description'', ''amount''],
      rows = [map_of [(''date'', ''01/02/2024''), (''description'', ''Coffee''), (''amount'', ''$4.50'')],
              map_of [(''date'', ''2024-01-02''), (''description'', ''coffee''), (''amount'', ''4.50'')],
              map_of [(''date'', ''bad-date''), (''description'', ''Lunch''), (''amount'', ''12.00'')],
              map_of [(''date'', ''2024-01-03''), (''description'', ''Rent''), (''amount'', ''(1200.00)'')]]\<rparr>"

definition blank_date_df :: dataframe where
  "blank_date_df =
     \<lparr>columns = [''date'', ''amount''],
      rows = [map_of [(''date'', ''  ''), (''amount'', ''4.50'')]]\<rparr>"


text \<open>Two stored tables for the views, with exact sums standing in for SQLite's.\<close>

definition demo_table :: "stored_row list" where
  "demo_table =
     [\<lparr>sql_date_iso = Some ''2024-01-02'', sql_amount_num = Some 4.5,
       sql_category = Some ''Food'', sql_run_id = Some ''r1''\<rparr>,
      \<lparr>sql_date_iso = Some ''2024-01-03'', sql_amount_num = Some (- 1200),
       sql_category = Some '''', sql_run_id = Some ''r1''\<rparr>,
      \<lparr>sql_date_iso = Some ''2024-02-10'', sql_amount_num = Some 12,
       sql_category = None, sql_run_id = Some ''r1''\<rparr>]"


section \<open>Properties of the Text Normalizer\<close>

lemma filter_collapse_ws:
  "filter (\<lambda>c. \<not> is_space c) (collapse_ws b s) = filter (\<lambda>c. \<not> is_space c) s"
  by (induction s arbitrary: b) (simp_all add: is_space_def)

lemma strip_eq_Nil: "strip s = [] \<longleftrightarrow> (\<forall>c \<in> set s. is_space c)"
proof
  assume "strip s = []"
  then have all: "\<forall>c \<in> set (dropWhile is_space s). is_space c"
    by (simp add: strip_def)
  have "dropWhile is_space s = []"
  proof (cases "dropWhile is_space s")
    case (Cons x xs)
    then have "\<not> is_space x" using hd_dropWhile [of is_space s] by simp
    with all Cons show ?thesis by simp
  qed simp
  then show "\<forall>c \<in> set s. is_space c" by simp
next
  assume "\<forall>c \<in> set s. is_space c"
  then show "strip s = []" by (auto simp: strip_def dest: set_dropWhileD)
qed

lemma clean_cell_eq_Nil: "clean_cell c = [] \<longleftrightarrow> is_blank c"
proof -
  have "(\<forall>x \<in> set (collapse_ws False s). is_space x) \<longleftrightarrow> (\<forall>x \<in> set s. is_space x)" for s
    using filter_collapse_ws [of False s] by (metis filter_empty_conv)
  then show ?thesis
    by (cases c) (simp_all add: clean_cell_def is_blank_def fillna_def strip_eq_Nil list_all_iff)
qed


section \<open>The Date Canonicalizer: blank is not an error\<close>

lemma parse_date_length:
  "length (fst (parse_date parser strftime series)) = length series"
  "length (snd (parse_date parser strftime series)) = length series"
  by (simp_all add: parse_date_def Let_def pd_to_datetime_def clean_text_def)

lemma parse_date_nth:
  assumes "i < length series"
  shows "fst (parse_date parser strftime series) ! i =
           (if clean_cell (series ! i) = [] then []
            else case parser (clean_text series) i of None \<Rightarrow> [] | Some d \<Rightarrow> strftime d)"
    and "snd (parse_date parser strftime series) ! i =
           (clean_cell (series ! i) \<noteq> [] \<and> parser (clean_text series) i = None)"
  using assms
  by (auto simp: parse_date_def Let_def pd_to_datetime_def clean_text_def fillna_def
      split: option.splits)

text \<open>
  C7. At every position of the date column: a blank cell (NaN, empty or whitespace
  only) gives the empty ISO string and the flag false; a cell that is not blank and
  that the date parser does not read gives the empty ISO string and the flag true; so
  a flagged cell is never blank.
\<close>

theorem parse_date_blank_not_error:
  assumes "i < length series"
  shows "(is_blank (series ! i) \<longrightarrow>
            fst (parse_date parser strftime series) ! i = [] \<and>
            \<not> snd (parse_date parser strftime series) ! i) \<and>
         (\<not> is_blank (series ! i) \<and> parser (clean_text series) i = None \<longrightarrow>
            fst (parse_date parser strftime series) ! i = [] \<and>
            snd (parse_date parser strftime series) ! i) \<and>
         (snd (parse_date parser strftime series) ! i \<longrightarrow> \<not> is_blank (series ! i))"
  using assms by (simp add: parse_date_nth clean_cell_eq_Nil)

theorem parse_date_blank_not_error_witness:
  "is_blank (Some ''  '') \<and> \<not> is_blank (Some ''bad-date'') \<and>
   fst (parse_date (\<lambda>c i. if c ! i = ''2024-01-02'' then Some () else None)
          (\<lambda>u. ''2024-01-02'') [Some ''  '', Some ''bad-date'']) ! 0 = [] \<and>
   \<not> snd (parse_date (\<lambda>c i. if c ! i = ''2024-01-02'' then Some () else None)
          (\<lambda>u. ''2024-01-02'') [Some ''  '', Some ''bad-date'']) ! 0 \<and>
   fst (parse_date (\<lambda>c i. if c ! i = ''2024-01-02'' then Some () else None)
          (\<lambda>u. ''2024-01-02'') [Some ''  '', Some ''bad-date'']) ! 1 = [] \<and>
   snd (parse_date (\<lambda>c i. if c ! i = ''2024-01-02'' then Some () else None)
          (\<lambda>u. ''2024-01-02'') [Some ''  '', Some ''bad-date'']) ! 1"
proof -
  let ?p = "\<lambda>(c :: string list) i. if c ! i = ''2024-01-02'' then Some () else None"
  let ?s = "[Some ''  '', Some ''bad-date'']"
  have b: "is_blank (Some ''  '')" "\<not> is_blank (Some ''bad-date'')"
    by (simp_all add: is_blank_def is_space_def)
  have c: "clean_text ?s = ['''', ''bad-date'']"
    by (simp add: clean_text_def clean_cell_def strip_def fillna_def is_space_def)
  from b c show ?thesis
    using parse_date_blank_not_error [of 0 ?s ?p "\<lambda>u. ''2024-01-02''"]
          parse_date_blank_not_error [of 1 ?s ?p "\<lambda>u. ''2024-01-02''"]
    by simp
qed

section \<open>The Amount Canonicalizer: the steps and the documented examples\<close>

lemma parse_amount_length:
  "length (fst (parse_amount parser series)) = length series"
  "length (snd (parse_amount parser series)) = length series"
  by (simp_all add: parse_amount_def Let_def pd_to_numeric_def clean_text_def)

lemma parse_amount_nth:
  assumes "i < length series"
  shows "fst (parse_amount parser series) ! i =
           (if strip_currency (paren_to_minus (clean_cell (series ! i))) = [] then None
            else parser (map (\<lambda>c. strip_currency (paren_to_minus (clean_cell c))) series) i)"
    and "snd (parse_amount parser series) ! i =
           (strip_currency (paren_to_minus (clean_cell (series ! i))) \<noteq> [] \<and>
            parser (map (\<lambda>c. strip_currency (paren_to_minus (clean_cell c))) series) i = None)"
  using assms
  by (auto simp: parse_amount_def Let_def pd_to_numeric_def clean_text_def comp_def)

lemma paren_to_minus_wrapped:
  "paren_to_minus (CHR ''('' # inner @ [CHR '')'']) = CHR ''-'' # inner"
  by (simp add: paren_to_minus_def butlast_append)

lemma paren_to_minus_other:
  assumes "\<forall>inner. s \<noteq> CHR ''('' # inner @ [CHR '')'']"
  shows "paren_to_minus s = s"
proof (rule ccontr)
  assume "paren_to_minus s \<noteq> s"
  then have c: "2 \<le> length s" "hd s = CHR ''(''" "last s = CHR '')''"
    by (auto simp: paren_to_minus_def split: if_splits)
  then obtain t where t: "s = CHR ''('' # t" "t \<noteq> []" by (cases s; cases "tl s") auto
  with c have "t = butlast t @ [CHR '')'']" by (metis append_butlast_last_id last_ConsR)
  with t assms show False by metis
qed

text \<open>
  C6. The text handed to the numeric parser is the cleaned cell, rewritten from
  \<open>(inner)\<close> to \<open>-inner\<close> when it is wrapped in parentheses (unchanged otherwise), then
  with every \<open>$\<close> and comma removed. When that text is empty the amount is undefined
  and not flagged; otherwise the amount is what the parser reads and the flag says that
  the parser read nothing. For \<open>(45.10)\<close>, \<open>$1,234.56\<close> and \<open>-10\<close> the parser is given
  \<open>-45.10\<close>, \<open>1234.56\<close> and \<open>-10\<close>.
\<close>

theorem parse_amount_canonical:
  fixes parser :: "string list \<Rightarrow> nat \<Rightarrow> 'a option"
  shows "(i < length series \<longrightarrow>
          (let text = (\<lambda>c. strip_currency (paren_to_minus (clean_cell c)));
               amt = fst (parse_amount parser series) ! i;
               invalid = snd (parse_amount parser series) ! i
           in (text (series ! i) = [] \<longrightarrow> amt = None \<and> \<not> invalid) \<and>
              (text (series ! i) \<noteq> [] \<longrightarrow>
                 amt = parser (map text series) i \<and> invalid = (amt = None)))) \<and>
         paren_to_minus (CHR ''('' # inner @ [CHR '')'']) = CHR ''-'' # inner \<and>
         ((\<forall>inner. s \<noteq> CHR ''('' # inner @ [CHR '')'']) \<longrightarrow> paren_to_minus s = s) \<and>
         strip_currency s = filter (\<lambda>c. c \<notin> {CHR ''$'', CHR '',''}) s \<and>
         parse_amount parser [Some ''(45.10)''] =
           ([parser [''-45.10''] 0], [parser [''-45.10''] 0 = None]) \<and>
         parse_amount parser [Some ''$1,234.56''] =
           ([parser [''1234.56''] 0], [parser [''1234.56''] 0 = None]) \<and>
         parse_amount parser [Some ''-10''] =
           ([parser [''-10''] 0], [parser [''-10''] 0 = None])"
proof -
  have ex: "clean_cell (Some ''(45.10)'') = ''(45.10)''"
    "clean_cell (Some ''$1,234.56'') = ''$1,234.56''"
    "clean_cell (Some ''-10'') = ''-10''"
    by (simp_all add: clean_cell_def strip_def fillna_def is_space_def)
  have sc: "strip_currency s = filter (\<lambda>c. c \<notin> {CHR ''$'', CHR '',''}) s"
    unfolding strip_currency_def by (rule filter_cong) auto
  show ?thesis
    apply (intro conjI impI)
    subgoal by (simp add: parse_amount_nth Let_def)
    subgoal by (rule paren_to_minus_wrapped)
    subgoal by (rule paren_to_minus_other)
    subgoal by (rule sc)
    subgoal by (simp add: parse_amount_def Let_def pd_to_numeric_def clean_text_def ex paren_to_minus_def strip_currency_def)
    subgoal by (simp add: parse_amount_def Let_def pd_to_numeric_def clean_text_def ex paren_to_minus_def strip_currency_def)
    subgoal by (simp add: parse_amount_def Let_def pd_to_numeric_def clean_text_def ex paren_to_minus_def strip_currency_def)
    done
qed

theorem parse_amount_canonical_witness:
  "parse_amount
     (\<lambda>c i. map_of [(''-45.10'', - 45.10 :: real), (''1234.56'', 1234.56), (''-10'', - 10)] (c ! i))
     [Some ''(45.10)''] = ([Some (- 45.10)], [False]) \<and>
   parse_amount
     (\<lambda>c i. map_of [(''-45.10'', - 45.10 :: real), (''1234.56'', 1234.56), (''-10'', - 10)] (c ! i))
     [Some ''$1,234.56''] = ([Some 1234.56], [False]) \<and>
   parse_amount
     (\<lambda>c i. map_of [(''-45.10'', - 45.10 :: real), (''1234.56'', 1234.56), (''-10'', - 10)] (c ! i))
     [Some ''-10''] = ([Some (- 10)], [False]) \<and>
   (0::nat) < length [Some ''$'', Some ''abc''] \<and>
   strip_currency (paren_to_minus (clean_cell ([Some ''$'', Some ''abc''] ! 0))) = [] \<and>
   fst (parse_amount
     (\<lambda>c i. map_of [(''-45.10'', - 45.10 :: real), (''1234.56'', 1234.56), (''-10'', - 10)] (c ! i))
     [Some ''$'', Some ''abc'']) ! 0 = None \<and>
   \<not> snd (parse_amount
     (\<lambda>c i. map_of [(''-45.10'', - 45.10 :: real), (''1234.56'', 1234.56), (''-10'', - 10)] (c ! i))
     [Some ''$'', Some ''abc'']) ! 0"
proof -
  let ?p = "\<lambda>(c :: string list) i.
     map_of [(''-45.10'', - 45.10 :: real), (''1234.56'', 1234.56), (''-10'', - 10)] (c ! i)"
  have t: "strip_currency (paren_to_minus (clean_cell ([Some ''$'', Some ''abc''] ! 0))) = []"
    by (simp add: clean_cell_def strip_def fillna_def is_space_def paren_to_minus_def
        strip_currency_def)
  from t show ?thesis
    using parse_amount_canonical [of 0 "[Some ''$'', Some ''abc'']" ?p]
    by (simp add: Let_def)
qed

section \<open>The Identity Key Builder: when two keys are equal\<close>




text \<open>
  C2 (the code differs). The key of a record with an undefined amount ends in the
  text \<open><NA>\<close>: \<^verbatim>\<open>astype(str)\<close> has already written the missing value as text when
  \<^verbatim>\<open>fillna("")\<close> runs, so the amount component is not the empty string.
\<close>

theorem txn_key_undefined_amount:
  "make_txn_key round2 fmt [d] [s] [None] = [d @ ''|'' @ lower (clean_cell s) @ ''|'' @ ''<NA>''] \<and>
   make_txn_key round2 fmt [''2024-01-02''] [Some ''Coffee''] [None] = [''2024-01-02|coffee|<NA>'']"
proof -
  have "lower (clean_cell (Some ''Coffee'')) = ''coffee''"
    by code_simp
  then show ?thesis
    by (simp add: make_txn_key_def Let_def clean_text_def astype_str_def fillna_def)
qed





section \<open>The Row Classifier: the counts\<close>

lemma normalized_length: "length (normalized lib df) = length (rows df)"
  by (simp add: normalized_def Let_def split_def)

lemma normalized_nth:
  assumes "i < length (rows df)"
  shows "date_iso (normalized lib df ! i) =
           fst (parse_date (lib_to_datetime lib) (lib_strftime lib) (col df ''date'')) ! i"
    and "has_issue (normalized lib df ! i) =
           (snd (parse_date (lib_to_datetime lib) (lib_strftime lib) (col df ''date'')) ! i \<or>
            snd (parse_amount (lib_to_numeric lib) (col df ''amount'')) ! i)"
    and "issue_date_invalid (normalized lib df ! i) =
           snd (parse_date (lib_to_datetime lib) (lib_strftime lib) (col df ''date'')) ! i"
    and "issue_amount_invalid (normalized lib df ! i) =
           snd (parse_amount (lib_to_numeric lib) (col df ''amount'')) ! i"
    and "amount_num (normalized lib df ! i) =
           fst (parse_amount (lib_to_numeric lib) (col df ''amount'')) ! i"
    and "description (normalized lib df ! i) =
           (if ''description'' \<in> set (columns df)
            then clean_cell ((rows df ! i) ''description'') else [])"
    and "category (normalized lib df ! i) =
           (if ''category'' \<in> set (columns df)
            then clean_cell ((rows df ! i) ''category'') else [])"
    and "source (normalized lib df ! i) =
           (if ''source'' \<in> set (columns df)
            then clean_cell ((rows df ! i) ''source'') else [])"
    and "input_row (normalized lib df ! i) = rows df ! i"
proof -
  have c: "clean_cell (Some []) = []"
    by (simp add: clean_cell_def strip_def fillna_def)
  show "date_iso (normalized lib df ! i) =
           fst (parse_date (lib_to_datetime lib) (lib_strftime lib) (col df ''date'')) ! i"
    using assms by (simp add: normalized_def Let_def split_def)
  show "has_issue (normalized lib df ! i) =
           (snd (parse_date (lib_to_datetime lib) (lib_strftime lib) (col df ''date'')) ! i \<or>
            snd (parse_amount (lib_to_numeric lib) (col df ''amount'')) ! i)"
    using assms
    by (simp add: normalized_def Let_def split_def parse_date_length parse_amount_length col_def)
  show "issue_date_invalid (normalized lib df ! i) =
           snd (parse_date (lib_to_datetime lib) (lib_strftime lib) (col df ''date'')) ! i"
    using assms by (simp add: normalized_def Let_def split_def)
  show "issue_amount_invalid (normalized lib df ! i) =
           snd (parse_amount (lib_to_numeric lib) (col df ''amount'')) ! i"
    using assms by (simp add: normalized_def Let_def split_def)
  show "amount_num (normalized lib df ! i) =
           fst (parse_amount (lib_to_numeric lib) (col df ''amount'')) ! i"
    using assms by (simp add: normalized_def Let_def split_def)
  show "description (normalized lib df ! i) =
           (if ''description'' \<in> set (columns df)
            then clean_cell ((rows df ! i) ''description'') else [])"
    using assms by (simp add: normalized_def Let_def split_def clean_text_def col_def c)
  show "category (normalized lib df ! i) =
           (if ''category'' \<in> set (columns df)
            then clean_cell ((rows df ! i) ''category'') else [])"
    using assms by (simp add: normalized_def Let_def split_def clean_text_def col_def)
  show "source (normalized lib df ! i) =
           (if ''source'' \<in> set (columns df)
            then clean_cell ((rows df ! i) ''source'') else [])"
    using assms by (simp add: normalized_def Let_def split_def clean_text_def col_def)
  show "input_row (normalized lib df ! i) = rows df ! i"
    using assms by (simp add: normalized_def Let_def split_def)
qed

lemma transform_accepts:
  assumes "''date'' \<in> set (columns df)" "''amount'' \<in> set (columns df)"
  shows "transform_transactions lib df =
     Inr (drop_duplicates txn_key (clean_before_dedup lib df),
          filter has_issue (normalized lib df),
          \<lparr>rows_in = int (length (rows df)),
           rows_out_clean = int (length (drop_duplicates txn_key (clean_before_dedup lib df))),
           rows_out_issues = int (length (filter has_issue (normalized lib df))),
           duplicates_removed = int (length (clean_before_dedup lib df)) -
             int (length (drop_duplicates txn_key (clean_before_dedup lib df)))\<rparr>)"
  using assms by (simp add: transform_transactions_def Let_def)

lemma transform_Inr_iff:
  "(\<exists>r. transform_transactions lib df = Inr r) \<longleftrightarrow>
   ''date'' \<in> set (columns df) \<and> ''amount'' \<in> set (columns df)"
  by (auto simp: transform_transactions_def Let_def)

text \<open>
  C4. For every table the transform accepts: the issue rows and the clean rows
  before deduplication add up to the input rows, the clean rows before deduplication
  less the duplicates removed are the clean rows, and every input row is in exactly
  one of the issue set and the clean set before deduplication.
\<close>

theorem transform_count_identities:
  assumes "transform_transactions lib df = Inr (clean_df, issues_df, meta)"
  shows "rows_out_issues meta + int (length (clean_before_dedup lib df)) = rows_in meta \<and>
         int (length (clean_before_dedup lib df)) - duplicates_removed meta = rows_out_clean meta \<and>
         rows_in meta = int (length (rows df)) \<and>
         rows_out_issues meta = int (length issues_df) \<and>
         rows_out_clean meta = int (length clean_df) \<and>
         (\<forall>i < length (rows df).
            (normalized lib df ! i \<in> set issues_df) \<noteq>
            (normalized lib df ! i \<in> set (clean_before_dedup lib df)))"
proof -
  from assms have c: "''date'' \<in> set (columns df) \<and> ''amount'' \<in> set (columns df)"
    using transform_Inr_iff [of lib df] by blast
  have split: "length (filter has_issue xs) + length (filter (\<lambda>r. \<not> has_issue r) xs) = length xs"
    for xs :: "'c txn list"
    by (rule sum_length_filter_compl)
  have mem: "(normalized lib df ! i \<in> set (filter has_issue (normalized lib df))) \<noteq>
             (normalized lib df ! i \<in> set (clean_before_dedup lib df))"
    if "i < length (rows df)" for i
    using that by (auto simp: clean_before_dedup_def normalized_length)
  from assms c have m: "meta =
          \<lparr>rows_in = int (length (rows df)),
           rows_out_clean = int (length (drop_duplicates txn_key (clean_before_dedup lib df))),
           rows_out_issues = int (length (filter has_issue (normalized lib df))),
           duplicates_removed = int (length (clean_before_dedup lib df)) -
             int (length (drop_duplicates txn_key (clean_before_dedup lib df)))\<rparr>"
    and i: "issues_df = filter has_issue (normalized lib df)"
    and cl: "clean_df = drop_duplicates txn_key (clean_before_dedup lib df)"
    by (auto simp: transform_accepts)
  have n: "int (length (filter has_issue (normalized lib df))) +
           int (length (clean_before_dedup lib df)) = int (length (rows df))"
    using split [of "normalized lib df"]
    by (simp add: clean_before_dedup_def normalized_length flip: of_nat_add)
  from n mem show ?thesis
    by (simp add: m i cl)
qed

section \<open>The Deduplicator: the first occurrence is kept\<close>

lemma drop_duplicates_from_first:
  "drop_duplicates_from key seen xs =
     map (nth xs)
       (filter (\<lambda>i. key (xs ! i) \<notin> set seen \<and> (\<forall>j<i. key (xs ! j) \<noteq> key (xs ! i)))
          [0..<length xs])"
proof (induction xs arbitrary: seen)
  case Nil
  then show ?case by simp
next
  case (Cons x xs)
  let ?P = "\<lambda>s i. key (xs ! i) \<notin> set s \<and> (\<forall>j<i. key (xs ! j) \<noteq> key (xs ! i))"
  let ?Q = "\<lambda>i. key ((x # xs) ! i) \<notin> set seen \<and>
                 (\<forall>j<i. key ((x # xs) ! j) \<noteq> key ((x # xs) ! i))"
  have upt: "[0..<length (x # xs)] = 0 # map Suc [0..<length xs]"
    by (simp add: upt_conv_Cons map_Suc_upt del: upt_Suc)
  have tail: "map (nth (x # xs)) (filter ?Q (map Suc [0..<length xs])) =
              map (nth xs) (filter (?Q \<circ> Suc) [0..<length xs])"
    by (simp add: filter_map comp_def)
  have Q_Suc: "(?Q \<circ> Suc) i \<longleftrightarrow> ?P seen i \<and> key x \<noteq> key (xs ! i)" for i
    by (auto simp: All_less_Suc2)
  show ?case
  proof (cases "key x \<in> set seen")
    case True
    then have "(?Q \<circ> Suc) i \<longleftrightarrow> ?P seen i" for i
      using Q_Suc [of i] by auto
    then have "filter (?Q \<circ> Suc) [0..<length xs] = filter (?P seen) [0..<length xs]"
      by (intro filter_cong) auto
    with True Cons.IH [of seen] tail show ?thesis
      by (simp only: upt drop_duplicates_from.simps filter.simps list.map if_True nth_Cons_0)
         simp
  next
    case False
    have "(?Q \<circ> Suc) i \<longleftrightarrow> ?P (key x # seen) i" for i
      using Q_Suc [of i] by auto
    then have "filter (?Q \<circ> Suc) [0..<length xs] = filter (?P (key x # seen)) [0..<length xs]"
      by (intro filter_cong) auto
    with False Cons.IH [of "key x # seen"] tail show ?thesis
      by (simp only: upt drop_duplicates_from.simps filter.simps list.map if_False nth_Cons_0)
         simp
  qed
qed

lemma drop_duplicates_first:
  "drop_duplicates key xs =
     map (nth xs) (filter (\<lambda>i. \<forall>j<i. key (xs ! j) \<noteq> key (xs ! i)) [0..<length xs])"
  by (simp add: drop_duplicates_def drop_duplicates_from_first)

lemma drop_duplicates_from_distinct:
  "distinct (map key (drop_duplicates_from key seen xs)) \<and>
   key ` set (drop_duplicates_from key seen xs) = key ` set xs - set seen"
  by (induction xs arbitrary: seen) auto

text \<open>
  C5. The deduplicated clean table is the clean table with exactly those rows kept
  whose \<open>txn_key\<close> does not occur at an earlier position, in the original order; its
  keys are distinct; and \<open>duplicates_removed\<close> is the number of clean rows before
  less the number after.
\<close>

theorem dedup_keeps_first:
  assumes "transform_transactions lib df = Inr (clean_df, issues_df, meta)"
  shows "clean_df =
           map (nth (clean_before_dedup lib df))
             (filter (\<lambda>i. \<forall>j<i. txn_key (clean_before_dedup lib df ! j) \<noteq>
                                 txn_key (clean_before_dedup lib df ! i))
                [0..<length (clean_before_dedup lib df)]) \<and>
         distinct (map txn_key clean_df) \<and>
         duplicates_removed meta =
           int (length (clean_before_dedup lib df)) - int (length clean_df) \<and>
         rows_out_clean meta = int (length clean_df)"
proof -
  from assms have c: "''date'' \<in> set (columns df) \<and> ''amount'' \<in> set (columns df)"
    using transform_Inr_iff [of lib df] by blast
  with assms have m: "duplicates_removed meta =
        int (length (clean_before_dedup lib df)) - int (length clean_df)"
      "rows_out_clean meta = int (length clean_df)"
    and cl: "clean_df = drop_duplicates txn_key (clean_before_dedup lib df)"
    by (auto simp: transform_accepts)
  have d: "distinct (map txn_key clean_df)"
    unfolding cl drop_duplicates_def using drop_duplicates_from_distinct by blast
  from m d show ?thesis
    unfolding cl by (simp add: drop_duplicates_first [symmetric])
qed

section \<open>Required and optional columns; rows with a blank date\<close>


lemma drop_duplicates_from_keeps:
  assumes "key r \<notin> set seen" "key r \<notin> key ` set pre"
  shows "r \<in> set (drop_duplicates_from key seen (pre @ r # post))"
  using assms by (induction pre arbitrary: seen) auto

lemma drop_duplicates_from_key_kept:
  assumes "r \<in> set xs" "key r \<notin> set seen"
  shows "\<exists>r' \<in> set (drop_duplicates_from key seen xs). key r' = key r"
proof -
  from assms have "key r \<in> key ` set xs - set seen" by blast
  then have "key r \<in> key ` set (drop_duplicates_from key seen xs)"
    using drop_duplicates_from_distinct [of key seen xs] by simp
  then show ?thesis by force
qed



text \<open>
  C10. A row whose date cell is blank and whose amount is blank or read by the
  numeric parser has the empty \<open>date_iso\<close>, has no issue, is in the clean set before
  deduplication and not in the issue set; a row with its key is in the returned clean
  table, and the row itself is when no earlier clean row has its key.
\<close>

theorem blank_date_row_is_clean:
  fixes lib :: "('d, 'a) pandas"
  assumes "''date'' \<in> set (columns df)" "''amount'' \<in> set (columns df)"
      and "i < length (rows df)"
      and "is_blank ((rows df ! i) ''date'')"
      and "strip_currency (paren_to_minus (clean_cell ((rows df ! i) ''amount''))) = [] \<or>
           fst (parse_amount (lib_to_numeric lib) (col df ''amount'')) ! i \<noteq> None"
  shows "\<exists>clean_df issues_df meta.
           transform_transactions lib df = Inr (clean_df, issues_df, meta) \<and>
           date_iso (normalized lib df ! i) = [] \<and>
           \<not> has_issue (normalized lib df ! i) \<and>
           normalized lib df ! i \<in> set (clean_before_dedup lib df) \<and>
           normalized lib df ! i \<notin> set issues_df \<and>
           (\<exists>r \<in> set clean_df. txn_key r = txn_key (normalized lib df ! i)) \<and>
           ((\<forall>j<i. has_issue (normalized lib df ! j) \<or>
                    txn_key (normalized lib df ! j) \<noteq> txn_key (normalized lib df ! i)) \<longrightarrow>
              normalized lib df ! i \<in> set clean_df)"
proof -
  let ?out = "normalized lib df"
  let ?r = "?out ! i"
  have len: "i < length (col df ''date'')" "i < length (col df ''amount'')" "i < length ?out"
    using assms(3) by (simp_all add: col_def normalized_length)
  have cd: "col df ''date'' ! i = (rows df ! i) ''date''"
    and ca: "col df ''amount'' ! i = (rows df ! i) ''amount''"
    using assms(3) by (simp_all add: col_def)
  have d: "date_iso ?r = []" and nd: "\<not> issue_date_invalid ?r"
    using assms(3,4)
    by (simp_all add: normalized_nth parse_date_nth [OF len(1)] cd clean_cell_eq_Nil)
  have na: "\<not> issue_amount_invalid ?r"
    using assms(3,5) parse_amount_nth [OF len(2), of "lib_to_numeric lib"]
    by (auto simp: normalized_nth ca)
  have h: "\<not> has_issue ?r"
    using nd na assms(3) by (simp add: normalized_nth)
  have mem: "?r \<in> set (clean_before_dedup lib df)"
    using h len(3) by (simp add: clean_before_dedup_def)
  have iss: "?r \<notin> set (filter has_issue ?out)"
    using h by simp
  have kept: "\<exists>r \<in> set (drop_duplicates txn_key (clean_before_dedup lib df)).
                txn_key r = txn_key ?r"
    using drop_duplicates_from_key_kept [OF mem, of txn_key "[]"]
    by (simp add: drop_duplicates_def)
  have first: "?r \<in> set (drop_duplicates txn_key (clean_before_dedup lib df))"
    if f: "\<forall>j<i. has_issue (?out ! j) \<or> txn_key (?out ! j) \<noteq> txn_key ?r"
  proof -
    let ?P = "\<lambda>r :: 'a txn. \<not> has_issue r"
    have split: "?out = take i ?out @ ?r # drop (Suc i) ?out"
      using len(3) by (rule id_take_nth_drop)
    have "clean_before_dedup lib df = filter ?P (take i ?out @ ?r # drop (Suc i) ?out)"
      unfolding clean_before_dedup_def using split by simp
    then have cb: "clean_before_dedup lib df =
          filter ?P (take i ?out) @ ?r # filter ?P (drop (Suc i) ?out)"
      using h by simp
    have "txn_key ?r \<notin> txn_key ` set (filter ?P (take i ?out))"
    proof
      assume "txn_key ?r \<in> txn_key ` set (filter ?P (take i ?out))"
      then obtain x where x: "x \<in> set (take i ?out)" "\<not> has_issue x" "txn_key x = txn_key ?r"
        by auto
      then obtain j where "j < i" "x = ?out ! j"
        using len(3) by (auto simp: in_set_conv_nth)
      with f x show False by auto
    qed
    then show ?thesis
      unfolding drop_duplicates_def cb
      by (intro drop_duplicates_from_keeps) simp_all
  qed
  show ?thesis
    using d h mem iss kept first
    unfolding transform_accepts [OF assms(1,2)] by blast
qed

section \<open>The example tables, evaluated\<close>

lemma demo_transform:
  "transform_transactions demo_lib demo_df =
     Inr (drop_duplicates txn_key (clean_before_dedup demo_lib demo_df),
          filter has_issue (normalized demo_lib demo_df),
          \<lparr>rows_in = 4, rows_out_clean = 2, rows_out_issues = 1, duplicates_removed = 1\<rparr>)"
proof -
  have c: "''date'' \<in> set (columns demo_df)" "''amount'' \<in> set (columns demo_df)"
    by (simp_all add: demo_df_def)
  have l: "length (rows demo_df) = 4"
    "length (drop_duplicates txn_key (clean_before_dedup demo_lib demo_df)) = 2"
    "length (filter has_issue (normalized demo_lib demo_df)) = 1"
    "length (clean_before_dedup demo_lib demo_df) = 3"
    by code_simp+
  show ?thesis
    by (simp add: transform_accepts [OF c] l)
qed

lemma blank_date_transform:
  "transform_transactions demo_lib blank_date_df =
     Inr (drop_duplicates txn_key (clean_before_dedup demo_lib blank_date_df),
          filter has_issue (normalized demo_lib blank_date_df),
          \<lparr>rows_in = 1, rows_out_clean = 1, rows_out_issues = 0, duplicates_removed = 0\<rparr>)"
proof -
  have c: "''date'' \<in> set (columns blank_date_df)" "''amount'' \<in> set (columns blank_date_df)"
    by (simp_all add: blank_date_df_def)
  have l: "length (rows blank_date_df) = 1"
    "length (drop_duplicates txn_key (clean_before_dedup demo_lib blank_date_df)) = 1"
    "length (filter has_issue (normalized demo_lib blank_date_df)) = 0"
    "length (clean_before_dedup demo_lib blank_date_df) = 1"
    by code_simp+
  show ?thesis
    by (simp add: transform_accepts [OF c] l)
qed

theorem transform_count_identities_witness:
  "transform_transactions demo_lib demo_df =
     Inr (drop_duplicates txn_key (clean_before_dedup demo_lib demo_df),
          filter has_issue (normalized demo_lib demo_df),
          \<lparr>rows_in = 4, rows_out_clean = 2, rows_out_issues = 1, duplicates_removed = 1\<rparr>) \<and>
   int (length (clean_before_dedup demo_lib demo_df)) = 3 \<and>
   int (length (rows demo_df)) = 4 \<and>
   int (length (filter has_issue (normalized demo_lib demo_df))) = 1 \<and>
   int (length (drop_duplicates txn_key (clean_before_dedup demo_lib demo_df))) = 2"
  using demo_transform transform_count_identities [OF demo_transform]
  by simp

theorem dedup_keeps_first_witness:
  "transform_transactions demo_lib demo_df =
     Inr (drop_duplicates txn_key (clean_before_dedup demo_lib demo_df),
          filter has_issue (normalized demo_lib demo_df),
          \<lparr>rows_in = 4, rows_out_clean = 2, rows_out_issues = 1, duplicates_removed = 1\<rparr>) \<and>
   map (\<lambda>r. (description r, txn_key r)) (clean_before_dedup demo_lib demo_df) =
     [(''Coffee'', ''2024-01-02|coffee|4.5''), (''coffee'', ''2024-01-02|coffee|4.5''),
      (''Rent'', ''2024-01-03|rent|-1200.0'')] \<and>
   map (\<lambda>r. (description r, txn_key r))
     (drop_duplicates txn_key (clean_before_dedup demo_lib demo_df)) =
     [(''Coffee'', ''2024-01-02|coffee|4.5''), (''Rent'', ''2024-01-03|rent|-1200.0'')] \<and>
   distinct (map txn_key (drop_duplicates txn_key (clean_before_dedup demo_lib demo_df))) \<and>
   int (length (clean_before_dedup demo_lib demo_df)) -
     int (length (drop_duplicates txn_key (clean_before_dedup demo_lib demo_df))) = 1"
proof -
  have m: "map (\<lambda>r. (description r, txn_key r)) (clean_before_dedup demo_lib demo_df) =
     [(''Coffee'', ''2024-01-02|coffee|4.5''), (''coffee'', ''2024-01-02|coffee|4.5''),
      (''Rent'', ''2024-01-03|rent|-1200.0'')]"
    "map (\<lambda>r. (description r, txn_key r))
       (drop_duplicates txn_key (clean_before_dedup demo_lib demo_df)) =
     [(''Coffee'', ''2024-01-02|coffee|4.5''), (''Rent'', ''2024-01-03|rent|-1200.0'')]"
    by code_simp+
  have l: "int (length (clean_before_dedup demo_lib demo_df)) -
     int (length (drop_duplicates txn_key (clean_before_dedup demo_lib demo_df))) = 1"
    and d: "distinct (map txn_key (drop_duplicates txn_key (clean_before_dedup demo_lib demo_df)))"
  proof -
    note t = dedup_keeps_first [OF demo_transform]
    from t have "duplicates_removed
        \<lparr>rows_in = 4, rows_out_clean = 2, rows_out_issues = 1, duplicates_removed = 1\<rparr> =
        int (length (clean_before_dedup demo_lib demo_df)) -
        int (length (drop_duplicates txn_key (clean_before_dedup demo_lib demo_df)))"
      by (rule conjunct1 [OF conjunct2 [OF conjunct2]])
    then show "int (length (clean_before_dedup demo_lib demo_df)) -
        int (length (drop_duplicates txn_key (clean_before_dedup demo_lib demo_df))) = 1"
      by simp
    from t show
      "distinct (map txn_key (drop_duplicates txn_key (clean_before_dedup demo_lib demo_df)))"
      by (rule conjunct1 [OF conjunct2])
  qed
  from m l d demo_transform show ?thesis
    by (intro conjI)
qed


theorem blank_date_row_is_clean_witness:
  "''date'' \<in> set (columns blank_date_df) \<and> ''amount'' \<in> set (columns blank_date_df) \<and>
   0 < length (rows blank_date_df) \<and>
   is_blank ((rows blank_date_df ! 0) ''date'') \<and>
   fst (parse_amount (lib_to_numeric demo_lib) (col blank_date_df ''amount'')) ! 0 = Some 4.5 \<and>
   date_iso (normalized demo_lib blank_date_df ! 0) = [] \<and>
   \<not> has_issue (normalized demo_lib blank_date_df ! 0) \<and>
   (\<exists>clean_df issues_df meta.
      transform_transactions demo_lib blank_date_df = Inr (clean_df, issues_df, meta) \<and>
      normalized demo_lib blank_date_df ! 0 \<in> set clean_df \<and>
      map date_iso clean_df = [''''])"
proof -
  have c: "''date'' \<in> set (columns blank_date_df)" "''amount'' \<in> set (columns blank_date_df)"
    by (simp_all add: blank_date_df_def)
  have n: "0 < length (rows blank_date_df)"
    by (simp add: blank_date_df_def)
  have b: "is_blank ((rows blank_date_df ! 0) ''date'')"
    by (simp add: blank_date_df_def is_blank_def is_space_def)
  have p: "fst (parse_amount (lib_to_numeric demo_lib) (col blank_date_df ''amount'')) ! 0 = Some 4.5"
    by code_simp
  then have p': "strip_currency (paren_to_minus (clean_cell ((rows blank_date_df ! 0) ''amount''))) = [] \<or>
      fst (parse_amount (lib_to_numeric demo_lib) (col blank_date_df ''amount'')) ! 0 \<noteq> None"
    by simp
  have l: "length (drop_duplicates txn_key (clean_before_dedup demo_lib blank_date_df)) = 1"
    by code_simp
  from blank_date_row_is_clean [OF c n b p']
  obtain clean_df issues_df meta where
    t: "transform_transactions demo_lib blank_date_df = Inr (clean_df, issues_df, meta)"
    and d: "date_iso (normalized demo_lib blank_date_df ! 0) = []"
    and h: "\<not> has_issue (normalized demo_lib blank_date_df ! 0)"
    and f: "normalized demo_lib blank_date_df ! 0 \<in> set clean_df"
    by auto
  from t l have "length clean_df = 1"
    by (simp add: blank_date_transform)
  then obtain r where "clean_df = [r]"
    by (cases clean_df) auto
  with f d have "map date_iso clean_df = ['''']"
    by simp
  with c n b p d h t f show ?thesis
    by auto
qed

section \<open>The Aggregator: groups and counts\<close>

lemma group_by_keys: "map fst (group_by e t) = remdups (map e t)"
  by (simp add: group_by_def comp_def)

lemma group_by_mem:
  "(k, g) \<in> set (group_by e t) \<longleftrightarrow> k \<in> e ` set t \<and> g = filter (\<lambda>r. e r = k) t"
  by (auto simp: group_by_def)

lemma sum_indicator_distinct:
  "distinct ks \<Longrightarrow> a \<in> set ks \<Longrightarrow> (\<Sum>k\<leftarrow>ks. if a = k then 1 else 0 :: nat) = 1"
  by (induction ks) auto

lemma sum_filter_lengths:
  assumes "distinct ks" "e ` set t \<subseteq> set ks"
  shows "(\<Sum>k\<leftarrow>ks. length (filter (\<lambda>r. e r = k) t)) = length t"
  using assms(2)
proof (induction t)
  case Nil
  then show ?case by simp
next
  case (Cons r t)
  have "(\<Sum>k\<leftarrow>ks. length (filter (\<lambda>x. e x = k) (r # t))) =
        (\<Sum>k\<leftarrow>ks. (if e r = k then 1 else 0) + length (filter (\<lambda>x. e x = k) t))"
    by (intro arg_cong [where f = sum_list] map_cong) auto
  also have "\<dots> = (\<Sum>k\<leftarrow>ks. if e r = k then 1 else 0) +
                   (\<Sum>k\<leftarrow>ks. length (filter (\<lambda>x. e x = k) t))"
    by (simp add: sum_list_addf)
  also have "\<dots> = 1 + length t"
    using Cons assms(1) by (simp add: sum_indicator_distinct)
  finally show ?case by simp
qed

lemma group_by_total: "sum_list (map (\<lambda>kg. length (snd kg)) (group_by e t)) = length t"
proof -
  have "map (\<lambda>kg. length (snd kg)) (group_by e t) =
        map (\<lambda>k. length (filter (\<lambda>r. e r = k) t)) (remdups (map e t))"
    by (simp add: group_by_def comp_def)
  then show ?thesis
    using sum_filter_lengths [of "remdups (map e t)" e t] by simp
qed

lemma sum_list_sort_key:
  fixes g :: "'a \<Rightarrow> nat"
  assumes "distinct xs"
  shows "sum_list (map g (sort_key f xs)) = sum_list (map g xs)"
proof -
  have "sum_list (map g (sort_key f xs)) = sum g (set (sort_key f xs))"
    using assms by (intro sum_list_distinct_conv_sum_set) simp
  also have "\<dots> = sum g (set xs)" by simp
  also have "\<dots> = sum_list (map g xs)"
    using assms by (rule sum_list_distinct_conv_sum_set [symmetric])
  finally show ?thesis .
qed

lemma distinct_map_sort_key: "distinct (map g xs) \<Longrightarrow> distinct (map g (sort_key f xs))"
  by (simp add: distinct_map)

lemma distinct_map_distinct: "distinct (map g xs) \<Longrightarrow> distinct xs"
  by (simp add: distinct_map)

text \<open>
  C3, as amended. In the Monthly Trend view every selected row has the month key made
  of the first seven characters of its \<open>date_iso\<close> and is counted in the one month row
  with that key (a row with the empty \<open>date_iso\<close> in the month row with the empty key);
  the month keys of the view are distinct and the row counts add up to the number of
  selected rows.
\<close>

theorem monthly_trends_counts:
  "(\<forall>r \<in> set (where_run run_id table).
      (\<forall>d. sql_date_iso r = Some d \<longrightarrow> month_key r = Some (take 7 d)) \<and>
      (\<exists>m \<in> set (monthly_trends fsum round2 run_id table).
         mt_year_month m = month_key r \<and>
         mt_row_count m =
           length (filter (\<lambda>x. month_key x = month_key r) (where_run run_id table)))) \<and>
   distinct (map mt_year_month (monthly_trends fsum round2 run_id table)) \<and>
   sum_list (map mt_row_count (monthly_trends fsum round2 run_id table)) =
     length (where_run run_id table)"
proof -
  let ?sel = "where_run run_id table"
  let ?mk = "\<lambda>(k, g).
               \<lparr>mt_year_month = k,
                mt_net_total = map_option round2 (sql_sum fsum (map sql_amount_num g)),
                mt_income =
                  map_option round2 (sql_sum fsum (map (positive_part \<circ> sql_amount_num) g)),
                mt_expenses =
                  map_option round2
                    (map_option abs (sql_sum fsum (map (negative_part \<circ> sql_amount_num) g))),
                mt_row_count = length g\<rparr>"
  let ?G = "group_by month_key ?sel"
  let ?view = "monthly_trends fsum round2 run_id table"
  have view: "?view = sort_key mt_year_month (map ?mk ?G)"
    by (simp add: monthly_trends_def)
  have keys: "map mt_year_month (map ?mk ?G) = map fst ?G"
    by (simp add: split_def comp_def)
  have counts: "map mt_row_count (map ?mk ?G) = map (\<lambda>kg. length (snd kg)) ?G"
    by (simp add: split_def comp_def)
  have "distinct (map fst ?G)"
    by (simp add: group_by_keys)
  then have dk: "distinct (map mt_year_month (map ?mk ?G))"
    by (simp only: keys)
  then have dm: "distinct (map ?mk ?G)"
    by (rule distinct_map_distinct)
  have d: "distinct (map mt_year_month ?view)"
    unfolding view using dk by (rule distinct_map_sort_key)
  have s: "sum_list (map mt_row_count ?view) = length ?sel"
    unfolding view using sum_list_sort_key [OF dm, of mt_row_count mt_year_month]
    by (simp only: counts group_by_total)
  have e: "\<exists>m \<in> set ?view. mt_year_month m = month_key r \<and>
         mt_row_count m = length (filter (\<lambda>x. month_key x = month_key r) ?sel)"
    if "r \<in> set ?sel" for r
  proof -
    from that have "(month_key r, filter (\<lambda>x. month_key x = month_key r) ?sel) \<in> set ?G"
      by (simp add: group_by_mem)
    then have "?mk (month_key r, filter (\<lambda>x. month_key x = month_key r) ?sel) \<in> set ?view"
      unfolding view by (simp only: set_sort set_map) (rule imageI)
    then show ?thesis
      by (rule rev_bexI) simp
  qed
  have k: "\<forall>d. sql_date_iso r = Some d \<longrightarrow> month_key r = Some (take 7 d)" for r
    by (simp add: month_key_def)
  from e k d s show ?thesis by blast
qed

section \<open>The Aggregator: the Category Summary\<close>





section \<open>The views on the example tables\<close>

theorem monthly_trends_counts_witness:
  "demo_table ! 0 \<in> set (where_run None demo_table) \<and>
   sql_date_iso (demo_table ! 0) = Some ''2024-01-02'' \<and>
   month_key (demo_table ! 0) = Some ''2024-01'' \<and>
   map (\<lambda>m. (mt_year_month m, mt_row_count m))
     (monthly_trends sum_list (\<lambda>x. x) None demo_table) =
     [(Some ''2024-01'', 2), (Some ''2024-02'', 1)] \<and>
   distinct (map mt_year_month (monthly_trends sum_list (\<lambda>x. x) None demo_table)) \<and>
   sum_list (map mt_row_count (monthly_trends sum_list (\<lambda>x. x) None demo_table)) =
     length (where_run None demo_table) \<and>
   length (where_run None demo_table) = 3"
proof -
  note t = monthly_trends_counts [of None demo_table sum_list "\<lambda>x. x"]
  have r: "demo_table ! 0 \<in> set (where_run None demo_table)"
    by code_simp
  have i: "sql_date_iso (demo_table ! 0) = Some ''2024-01-02''"
    by code_simp
  from t r have "\<forall>d. sql_date_iso (demo_table ! 0) = Some d \<longrightarrow>
      month_key (demo_table ! 0) = Some (take 7 d)"
    by blast
  with i have k: "month_key (demo_table ! 0) = Some ''2024-01''"
    by simp
  have v: "map (\<lambda>m. (mt_year_month m, mt_row_count m))
     (monthly_trends sum_list (\<lambda>x. x) None demo_table) =
     [(Some ''2024-01'', 2), (Some ''2024-02'', 1)]"
    by code_simp
  from t have d: "distinct (map mt_year_month (monthly_trends sum_list (\<lambda>x. x) None demo_table))"
    by (rule conjunct1 [OF conjunct2])
  from t have s: "sum_list (map mt_row_count (monthly_trends sum_list (\<lambda>x. x) None demo_table)) =
     length (where_run None demo_table)"
    by (rule conjunct2 [OF conjunct2])
  have l: "length (where_run None demo_table) = 3"
    by code_simp
  from r i k v d s l show ?thesis
    by (intro conjI)
qed

text \<open>
  C3 as stated fails: a stored row with the empty \<open>date_iso\<close> is not left out of the
  view, it is counted in a month row whose key is the empty string.
\<close>

theorem monthly_trends_counts_empty_date:
  "map (\<lambda>m. (mt_year_month m, mt_row_count m))
     (monthly_trends sum_list (\<lambda>x. x) None
        [\<lparr>sql_date_iso = Some '''', sql_amount_num = Some 4.5,
          sql_category = Some '''', sql_run_id = Some ''r1''\<rparr>]) = [(Some '''', 1)]"
  by code_simp



end
